theory Spec2Isabelle
  imports Complex_Main "HOL-Library.Word"
begin

section \<open>Basic types\<close>

text \<open>
  Go's \<^verbatim>\<open>uint\<close> on the 64-bit targets the services are built for. Identifiers are only
  compared and printed by the modelled code.
\<close>

type_synonym uint = "64 word"

text \<open>
  A \<^verbatim>\<open>time.Time\<close> is an opaque instant; the code only stores what \<^verbatim>\<open>time.Now()\<close> returns,
  so every function that reads the clock takes the reading as an argument.
\<close>

type_synonym Time = nat

text \<open>
  A \<^verbatim>\<open>float64\<close> is either a finite value, written as the real number it denotes, or one of
  the three special values. The code never does arithmetic on a total: it only compares it
  with the constants 0 and 1000000, both exactly representable, so the comparisons below are
  the IEEE 754 ones (every comparison with NaN is false).
\<close>

datatype float64 = Finite real | PosInf | NegInf | NaN

fun f64_le :: "float64 \<Rightarrow> float64 \<Rightarrow> bool" where
  "f64_le NaN _ = False"
| "f64_le _ NaN = False"
| "f64_le NegInf _ = True"
| "f64_le _ PosInf = True"
| "f64_le (Finite a) (Finite b) = (a \<le> b)"
| "f64_le PosInf _ = False"
| "f64_le _ NegInf = False"

fun f64_gt :: "float64 \<Rightarrow> float64 \<Rightarrow> bool" where
  "f64_gt NaN _ = False"
| "f64_gt _ NaN = False"
| "f64_gt PosInf PosInf = False"
| "f64_gt PosInf _ = True"
| "f64_gt NegInf _ = False"
| "f64_gt (Finite a) (Finite b) = (a > b)"
| "f64_gt (Finite a) NegInf = True"
| "f64_gt (Finite a) PosInf = False"

section \<open>Package errors: the error taxonomy\<close>

subsection \<open>Error codes\<close>

definition CodeValidation :: string where "CodeValidation = ''VALIDATION_ERROR''"
definition CodeNotFound :: string where "CodeNotFound = ''NOT_FOUND''"
definition CodeConflict :: string where "CodeConflict = ''CONFLICT''"
definition CodeInternal :: string where "CodeInternal = ''INTERNAL_ERROR''"
definition CodeUnauthorized :: string where "CodeUnauthorized = ''UNAUTHORIZED''"
definition CodeForbidden :: string where "CodeForbidden = ''FORBIDDEN''"

subsection \<open>Error values\<close>

text \<open>
  The values that flow through an \<^verbatim>\<open>interface{}\<close> in the modelled code: an identifier or a
  string.
\<close>

datatype any = UintValue uint | StringValue string

text \<open>
  The \<^verbatim>\<open>Details\<close> field: nil, or a \<^verbatim>\<open>map[string]interface{}\<close>, given by its entries as the map
  literal lists them (the keys are distinct).
\<close>

datatype details = NoDetails | MapDetails "(string \<times> any) list"

text \<open>The status codes of package \<^verbatim>\<open>google.golang.org/grpc/codes\<close>.\<close>

datatype codes =
    codes_OK | codes_Canceled | codes_Unknown | codes_InvalidArgument
  | codes_DeadlineExceeded | codes_NotFound | codes_AlreadyExists
  | codes_PermissionDenied | codes_ResourceExhausted | codes_FailedPrecondition
  | codes_Aborted | codes_OutOfRange | codes_Unimplemented | codes_Internal
  | codes_Unavailable | codes_DataLoss | codes_Unauthenticated

text \<open>
  A Go \<^verbatim>\<open>error\<close> is nil, an \<^verbatim>\<open>*AppError\<close>, an RPC status error (what \<^verbatim>\<open>status.Error\<close> builds), or
  an error of some other type, given by the text its \<^verbatim>\<open>Error()\<close> prints and the error its
  \<^verbatim>\<open>Unwrap()\<close> returns (nil when it wraps nothing, as for \<^verbatim>\<open>errors.New\<close>).
\<close>

datatype AppError = AppError (Code: string) (Message: string) (Details: details) (Err: err)
and err =
    nil_err
  | App AppError
  | StatusErr codes string
  | Foreign string err

text \<open>
  \<^verbatim>\<open>errors.As(err, &appErr)\<close> with a target of type \<^verbatim>\<open>*AppError\<close>: the first \<^verbatim>\<open>*AppError\<close> on the
  \<^verbatim>\<open>Unwrap\<close> chain. A status error has no \<^verbatim>\<open>Unwrap\<close> method.
\<close>

fun errors_As :: "err \<Rightarrow> AppError option" where
  "errors_As nil_err = None"
| "errors_As (App a) = Some a"
| "errors_As (StatusErr c m) = None"
| "errors_As (Foreign m cause) = errors_As cause"

subsection \<open>Constructors\<close>

definition NewValidation :: "string \<Rightarrow> details \<Rightarrow> AppError" where
  "NewValidation message dets = AppError CodeValidation message dets nil_err"

definition NewConflict :: "string \<Rightarrow> AppError" where
  "NewConflict message = AppError CodeConflict message NoDetails nil_err"

definition NewInternal :: "string \<Rightarrow> err \<Rightarrow> AppError" where
  "NewInternal message e = AppError CodeInternal message NoDetails e"

definition NewUnauthorized :: "string \<Rightarrow> AppError" where
  "NewUnauthorized message = AppError CodeUnauthorized message NoDetails nil_err"

subsection \<open>Classification and wrapping\<close>

definition Is :: "err \<Rightarrow> string \<Rightarrow> bool" where
  "Is e code = (case errors_As e of Some appErr \<Rightarrow> Code appErr = code | None \<Rightarrow> False)"

definition Wrap :: "err \<Rightarrow> string \<Rightarrow> AppError" where
  "Wrap e message =
     (case errors_As e of
        Some appErr \<Rightarrow> AppError (Code appErr) (message @ '': '' @ Message appErr) (Details appErr) e
      | None \<Rightarrow> NewInternal message e)"

subsection \<open>Mapping to the HTTP status\<close>

definition http_StatusBadRequest :: int where "http_StatusBadRequest = 400"
definition http_StatusUnauthorized :: int where "http_StatusUnauthorized = 401"
definition http_StatusForbidden :: int where "http_StatusForbidden = 403"
definition http_StatusNotFound :: int where "http_StatusNotFound = 404"
definition http_StatusConflict :: int where "http_StatusConflict = 409"
definition http_StatusInternalServerError :: int where "http_StatusInternalServerError = 500"

definition HTTPStatus :: "err \<Rightarrow> int" where
  "HTTPStatus e =
     (case errors_As e of
        None \<Rightarrow> http_StatusInternalServerError
      | Some appErr \<Rightarrow>
          if Code appErr = CodeValidation then http_StatusBadRequest
          else if Code appErr = CodeNotFound then http_StatusNotFound
          else if Code appErr = CodeConflict then http_StatusConflict
          else if Code appErr = CodeUnauthorized then http_StatusUnauthorized
          else if Code appErr = CodeForbidden then http_StatusForbidden
          else http_StatusInternalServerError)"


subsection \<open>Printing\<close>

text \<open>The decimal digits of a number, as \<^verbatim>\<open>%v\<close> prints an unsigned integer.\<close>

function fmt_decimal :: "nat \<Rightarrow> string" where
  "fmt_decimal n =
     (if n < 10 then [''0123456789'' ! n]
      else fmt_decimal (n div 10) @ [''0123456789'' ! (n mod 10)])"
  by pat_completeness auto
termination
  by (relation "measure id") auto

text \<open>The verb \<^verbatim>\<open>%v\<close> of \<^verbatim>\<open>fmt.Sprintf\<close> on the values the code passes.\<close>

fun Sprintf_v :: "any \<Rightarrow> string" where
  "Sprintf_v (UintValue n) = fmt_decimal (unat n)"
| "Sprintf_v (StringValue s) = s"

definition NewNotFound :: "string \<Rightarrow> any \<Rightarrow> AppError" where
  "NewNotFound resource ident =
     AppError CodeNotFound
       (resource @ '' with id '' @ [CHR 0x27] @ Sprintf_v ident @ [CHR 0x27] @ '' not found'')
       NoDetails nil_err"

text \<open>The name of a status code, as its \<^verbatim>\<open>String()\<close> method prints it.\<close>

fun codes_String :: "codes \<Rightarrow> string" where
  "codes_String codes_OK = ''OK''"
| "codes_String codes_Canceled = ''Canceled''"
| "codes_String codes_Unknown = ''Unknown''"
| "codes_String codes_InvalidArgument = ''InvalidArgument''"
| "codes_String codes_DeadlineExceeded = ''DeadlineExceeded''"
| "codes_String codes_NotFound = ''NotFound''"
| "codes_String codes_AlreadyExists = ''AlreadyExists''"
| "codes_String codes_PermissionDenied = ''PermissionDenied''"
| "codes_String codes_ResourceExhausted = ''ResourceExhausted''"
| "codes_String codes_FailedPrecondition = ''FailedPrecondition''"
| "codes_String codes_Aborted = ''Aborted''"
| "codes_String codes_OutOfRange = ''OutOfRange''"
| "codes_String codes_Unimplemented = ''Unimplemented''"
| "codes_String codes_Internal = ''Internal''"
| "codes_String codes_Unavailable = ''Unavailable''"
| "codes_String codes_DataLoss = ''DataLoss''"
| "codes_String codes_Unauthenticated = ''Unauthenticated''"

text \<open>
  The \<^verbatim>\<open>Error()\<close> method. For an \<^verbatim>\<open>*AppError\<close> it is the source's; for a status error it is the
  library's. It is never called on nil; the text given there is what \<^verbatim>\<open>%v\<close> prints for nil.
\<close>

fun Error :: "err \<Rightarrow> string" where
  "Error nil_err = ''<nil>''"
| "Error (App (AppError c m d e)) =
     (if e \<noteq> nil_err then c @ '': '' @ m @ '': '' @ Error e else c @ '': '' @ m)"
| "Error (StatusErr c m) = ''rpc error: code = '' @ codes_String c @ '' desc = '' @ m"
| "Error (Foreign m cause) = m"

subsection \<open>Mapping to and from the RPC status\<close>

text \<open>\<^verbatim>\<open>status.Error(c, msg)\<close>: nil for the code OK, a status error otherwise.\<close>

definition status_Error :: "codes \<Rightarrow> string \<Rightarrow> err" where
  "status_Error c msg = (if c = codes_OK then nil_err else StatusErr c msg)"

definition GRPCStatus :: "err \<Rightarrow> err" where
  "GRPCStatus e =
     (case errors_As e of
        None \<Rightarrow> status_Error codes_Internal ''internal error''
      | Some appErr \<Rightarrow>
          status_Error
            (if Code appErr = CodeValidation then codes_InvalidArgument
             else if Code appErr = CodeNotFound then codes_NotFound
             else if Code appErr = CodeConflict then codes_AlreadyExists
             else if Code appErr = CodeUnauthorized then codes_Unauthenticated
             else if Code appErr = CodeForbidden then codes_PermissionDenied
             else codes_Internal)
            (Message appErr))"

text \<open>
  The first error on the \<^verbatim>\<open>Unwrap\<close> chain that carries an RPC status (an \<^verbatim>\<open>*AppError\<close> unwraps
  to its \<^verbatim>\<open>Err\<close> field).
\<close>

fun chain_status :: "err \<Rightarrow> (codes \<times> string) option" where
  "chain_status nil_err = None"
| "chain_status (App (AppError c m d e)) = chain_status e"
| "chain_status (StatusErr c m) = Some (c, m)"
| "chain_status (Foreign m cause) = chain_status cause"

text \<open>
  \<^verbatim>\<open>status.FromError\<close> of the RPC library, a status being its code and message: nil gives the
  nil status (code OK, empty message); a status error gives its own status; an error wrapping
  one gives the wrapped code with the wrapper's text; any other error gives code Unknown with
  the error's text, and \<^verbatim>\<open>ok\<close> false.
\<close>

definition status_FromError :: "err \<Rightarrow> (codes \<times> string) \<times> bool" where
  "status_FromError e =
     (case e of
        nil_err \<Rightarrow> ((codes_OK, []), True)
      | StatusErr c m \<Rightarrow> ((c, m), True)
      | _ \<Rightarrow> (case chain_status e of
                Some (c, m) \<Rightarrow> ((c, Error e), True)
              | None \<Rightarrow> ((codes_Unknown, Error e), False)))"

definition FromGRPCStatus :: "err \<Rightarrow> AppError" where
  "FromGRPCStatus e =
     (case status_FromError e of
        (st, ok) \<Rightarrow>
          if \<not> ok then NewInternal ''unknown error'' e
          else AppError
                 (if fst st = codes_InvalidArgument then CodeValidation
                  else if fst st = codes_NotFound then CodeNotFound
                  else if fst st = codes_AlreadyExists then CodeConflict
                  else if fst st = codes_Unauthenticated then CodeUnauthorized
                  else if fst st = codes_PermissionDenied then CodeForbidden
                  else CodeInternal)
                 (snd st) NoDetails e)"

section \<open>Orders domain\<close>

definition OrderStatusPending :: string where "OrderStatusPending = ''pending''"
definition OrderStatusConfirmed :: string where "OrderStatusConfirmed = ''confirmed''"
definition OrderStatusCancelled :: string where "OrderStatusCancelled = ''cancelled''"

text \<open>\<^verbatim>\<open>OrderStatus\<close> is a string type in the source, so a status is any string.\<close>

record Order =
  ID :: uint
  UserID :: uint
  Total :: float64
  Status :: string
  CreatedAt :: Time
  UpdatedAt :: Time

definition ErrUserIDRequired :: AppError where
  "ErrUserIDRequired = NewValidation ''user_id is required'' NoDetails"

definition ErrInvalidTotal :: AppError where
  "ErrInvalidTotal = NewValidation ''total must be greater than 0'' NoDetails"

definition ErrTotalTooHigh :: AppError where
  "ErrTotalTooHigh = NewValidation ''total cannot exceed 1,000,000'' NoDetails"

definition NewOrderNotFound :: "uint \<Rightarrow> err" where
  "NewOrderNotFound ident = App (NewNotFound ''order'' (UintValue ident))"

definition NewUserNotFoundError :: "uint \<Rightarrow> err" where
  "NewUserNotFoundError userID =
     App (NewValidation ''user not found'' (MapDetails [(''user_id'', UintValue userID)]))"

definition Order_Validate :: "Order \<Rightarrow> err" where
  "Order_Validate ord =
     (if UserID ord = 0 then App ErrUserIDRequired
      else if f64_le (Total ord) (Finite 0) then App ErrInvalidTotal
      else if f64_gt (Total ord) (Finite 1000000) then App ErrTotalTooHigh
      else nil_err)"

text \<open>
  \<^verbatim>\<open>NewOrder\<close> reads the clock twice; \<open>now1\<close> and \<open>now2\<close> are the two readings. The identifier
  keeps its zero value until the repository assigns one. The result is \<open>Inl\<close> of the error
  where the source returns \<^verbatim>\<open>nil, err\<close> and \<open>Inr\<close> of the order where it returns
  \<^verbatim>\<open>order, nil\<close>.
\<close>

definition NewOrder :: "uint \<Rightarrow> float64 \<Rightarrow> Time \<Rightarrow> Time \<Rightarrow> err + Order" where
  "NewOrder userID tot now1 now2 =
     (let order = \<lparr>ID = 0, UserID = userID, Total = tot, Status = OrderStatusPending,
                   CreatedAt = now1, UpdatedAt = now2\<rparr>
      in if Order_Validate order \<noteq> nil_err then Inl (Order_Validate order)
         else Inr order)"

text \<open>The two transitions mutate the order in place; the model returns the order after.\<close>

definition Confirm :: "Order \<Rightarrow> Time \<Rightarrow> Order" where
  "Confirm ord now = ord\<lparr>Status := OrderStatusConfirmed, UpdatedAt := now\<rparr>"

definition Cancel :: "Order \<Rightarrow> Time \<Rightarrow> Order" where
  "Cancel ord now = ord\<lparr>Status := OrderStatusCancelled, UpdatedAt := now\<rparr>"

section \<open>Users domain\<close>

subsection \<open>Regular expressions\<close>

text \<open>
  The part of the regular expression syntax that \<^verbatim>\<open>EmailRegex\<close> uses. A character class is
  its list of ranges, as written between the brackets (a single character is the range from
  itself to itself); \<open>r+\<close> is \<open>r r*\<close> and \<open>r{2,}\<close> is \<open>r r r*\<close>. Strings are byte strings: every
  class of the pattern is ASCII, so a rune outside ASCII matches none of them, as none of its
  bytes does.
\<close>

datatype regex =
    Null
  | Eps
  | Class "(char \<times> char) list"
  | Cat regex regex
  | Alt regex regex
  | Star regex

definition Plus :: "regex \<Rightarrow> regex" where
  "Plus r = Cat r (Star r)"

definition AtLeast2 :: "regex \<Rightarrow> regex" where
  "AtLeast2 r = Cat r (Cat r (Star r))"

definition in_range :: "char \<Rightarrow> char \<times> char \<Rightarrow> bool" where
  "in_range c rg = ((of_char (fst rg) :: nat) \<le> of_char c \<and> (of_char c :: nat) \<le> of_char (snd rg))"

definition in_class :: "(char \<times> char) list \<Rightarrow> char \<Rightarrow> bool" where
  "in_class rs c = list_ex (in_range c) rs"

text \<open>
  What a regular expression denotes: the set of strings it matches. Matching below is an
  algorithm; it is proved to decide membership in this set.
\<close>

definition conc :: "string set \<Rightarrow> string set \<Rightarrow> string set" where
  "conc A B = {u @ v | u v. u \<in> A \<and> v \<in> B}"

inductive_set star :: "string set \<Rightarrow> string set" for A :: "string set" where
  star_empty: "[] \<in> star A"
| star_step: "u \<in> A \<Longrightarrow> v \<in> star A \<Longrightarrow> u @ v \<in> star A"

fun lang :: "regex \<Rightarrow> string set" where
  "lang Null = {}"
| "lang Eps = {[]}"
| "lang (Class rs) = {[c] | c. in_class rs c}"
| "lang (Cat r s) = conc (lang r) (lang s)"
| "lang (Alt r s) = lang r \<union> lang s"
| "lang (Star r) = star (lang r)"

text \<open>Matching by derivatives: \<open>deriv c r\<close> matches what \<open>r\<close> matches after reading \<open>c\<close>.\<close>

fun nullable :: "regex \<Rightarrow> bool" where
  "nullable Null = False"
| "nullable Eps = True"
| "nullable (Class rs) = False"
| "nullable (Cat r s) = (nullable r \<and> nullable s)"
| "nullable (Alt r s) = (nullable r \<or> nullable s)"
| "nullable (Star r) = True"

fun deriv :: "char \<Rightarrow> regex \<Rightarrow> regex" where
  "deriv c Null = Null"
| "deriv c Eps = Null"
| "deriv c (Class rs) = (if in_class rs c then Eps else Null)"
| "deriv c (Cat r s) =
     (if nullable r then Alt (Cat (deriv c r) s) (deriv c s) else Cat (deriv c r) s)"
| "deriv c (Alt r s) = Alt (deriv c r) (deriv c s)"
| "deriv c (Star r) = Cat (deriv c r) (Star r)"

text \<open>
  \<^verbatim>\<open>MatchString\<close> for a pattern anchored at both ends (\<^verbatim>\<open>^...$\<close>, without the multi-line flag):
  the pattern between the anchors has to match the whole string.
\<close>

fun MatchString :: "regex \<Rightarrow> string \<Rightarrow> bool" where
  "MatchString r [] = nullable r"
| "MatchString r (c # cs) = MatchString (deriv c r) cs"

text \<open>The pattern \<^verbatim>\<open>^[a-zA-Z0-9._%+-]+@[a-zA-Z0-9.-]+\.[a-zA-Z]{2,}$\<close>.\<close>

definition local_class :: "(char \<times> char) list" where
  "local_class =
     [(CHR ''a'', CHR ''z''), (CHR ''A'', CHR ''Z''), (CHR ''0'', CHR ''9''), (CHR ''.'', CHR ''.''),
      (CHR ''_'', CHR ''_''), (CHR ''%'', CHR ''%''), (CHR ''+'', CHR ''+''), (CHR ''-'', CHR ''-'')]"

definition domain_class :: "(char \<times> char) list" where
  "domain_class =
     [(CHR ''a'', CHR ''z''), (CHR ''A'', CHR ''Z''), (CHR ''0'', CHR ''9''), (CHR ''.'', CHR ''.''),
      (CHR ''-'', CHR ''-'')]"

definition letter_class :: "(char \<times> char) list" where
  "letter_class = [(CHR ''a'', CHR ''z''), (CHR ''A'', CHR ''Z'')]"

definition EmailRegex :: regex where
  "EmailRegex =
     Cat (Plus (Class local_class))
       (Cat (Class [(CHR ''@'', CHR ''@'')])
         (Cat (Plus (Class domain_class))
           (Cat (Class [(CHR ''.'', CHR ''.'')])
             (AtLeast2 (Class letter_class)))))"

subsection \<open>The user entity\<close>

record User =
  User_ID :: uint
  Name :: string
  Email :: string
  User_CreatedAt :: Time
  User_UpdatedAt :: Time

definition ErrNameRequired :: AppError where
  "ErrNameRequired = NewValidation ''name is required'' NoDetails"

definition ErrNameLength :: AppError where
  "ErrNameLength = NewValidation ''name must be between 2 and 100 characters'' NoDetails"

definition ErrEmailRequired :: AppError where
  "ErrEmailRequired = NewValidation ''email is required'' NoDetails"

definition ErrEmailInvalid :: AppError where
  "ErrEmailInvalid = NewValidation ''email format is invalid'' NoDetails"

definition User_Validate :: "User \<Rightarrow> err" where
  "User_Validate u =
     (if Name u = [] then App ErrNameRequired
      else if length (Name u) < 2 \<or> length (Name u) > 100 then App ErrNameLength
      else if Email u = [] then App ErrEmailRequired
      else if \<not> MatchString EmailRegex (Email u) then App ErrEmailInvalid
      else nil_err)"

section \<open>Orders application: the use case\<close>

subsection \<open>Ports\<close>

text \<open>
  The collaborators are interfaces. A method is a function on the state \<open>'w\<close> of everything
  outside the use case (store, network, broker): it takes its arguments and the state before
  the call and gives what the call returns, a Go pair with the error second, and the state
  after. \<^verbatim>\<open>Create\<close> writes the identifier and timestamps through the order pointer, so it
  also gives the order as the call leaves it. Of the repository only the two methods the use
  case calls are modelled.
\<close>

record UserInfo =
  Info_ID :: uint
  Info_Name :: string
  Info_Email :: string

record 'w OrderRepository =
  Create :: "Order \<Rightarrow> 'w \<Rightarrow> (Order \<times> err) \<times> 'w"
  GetByID :: "uint \<Rightarrow> 'w \<Rightarrow> (Order option \<times> err) \<times> 'w"

text \<open>A call either returns a value or panics, with the text of the runtime error.\<close>

datatype 'a outcome = Returns 'a | Panics string

definition nil_dereference :: string where
  "nil_dereference = ''runtime error: invalid memory address or nil pointer dereference''"

text \<open>
  The body of a \<^verbatim>\<open>PublishOrderCreated\<close> method that returns; the publishers of the source only
  read the order.
\<close>

type_synonym 'w PublishOrderCreated_body = "Order \<Rightarrow> 'w \<Rightarrow> err \<times> 'w"

text \<open>
  What a non-nil \<^verbatim>\<open>EventPublisher\<close> interface holds. The service's \<^verbatim>\<open>main\<close> declares its publisher
  as a \<^verbatim>\<open>*RabbitMQPublisher\<close>, leaves it nil when the broker cannot be reached or the publisher
  cannot be set up ("events will be disabled"), and hands it to \<^verbatim>\<open>NewOrderUseCase\<close> in either
  case. The interface the use case then holds is not nil: it holds a nil pointer. So a
  publisher is either that nil pointer or a value whose method has a body that returns.
\<close>

datatype 'w EventPublisher =
    NilRabbitMQPublisher
  | Publisher "'w PublishOrderCreated_body"

text \<open>
  The method call. \<^verbatim>\<open>RabbitMQPublisher.PublishOrderCreated\<close> builds the event from the order and
  then reads the field \<^verbatim>\<open>p.publisher\<close> of its receiver: on the nil receiver that is a nil
  dereference, before anything is sent.
\<close>

fun PublishOrderCreated :: "'w EventPublisher \<Rightarrow> Order \<Rightarrow> 'w \<Rightarrow> (err \<times> 'w) outcome" where
  "PublishOrderCreated NilRabbitMQPublisher order w = Panics nil_dereference"
| "PublishOrderCreated (Publisher body) order w = Returns (body order w)"

text \<open>\<^verbatim>\<open>GetUser\<close>, for a client whose call returns.\<close>

type_synonym 'w UserClient = "uint \<Rightarrow> 'w \<Rightarrow> (UserInfo option \<times> err) \<times> 'w"

text \<open>
  The use case holds its collaborators; a nil publisher or user client interface is \<open>None\<close>.
  The logger is not a field of the model: what the use case logs is recorded in the trace
  below.
\<close>

record 'w OrderUseCase =
  repo :: "'w OrderRepository"
  publisher :: "'w EventPublisher option"
  userClient :: "'w UserClient option"

text \<open>
  What the use case does to the outside, in order: every call of a collaborator method with
  its arguments, and every log line with its level and message.
\<close>

datatype call =
    GetUser_call uint
  | Create_call Order
  | GetByID_call uint
  | PublishOrderCreated_call Order
  | Log_Error string
  | Log_Info string

record CreateOrderInput =
  Input_UserID :: uint
  Input_Total :: float64

record CreateOrderOutput =
  Created_Order :: Order

record GetOrderInput =
  Input_ID :: uint

text \<open>The order pointer of the output is whatever the repository returned.\<close>

record GetOrderOutput =
  Got_Order :: "Order option"

subsection \<open>CreateOrder\<close>

text \<open>
  The body of \<^verbatim>\<open>CreateOrder\<close> from the construction of the entity on, in the state \<open>w\<close> and
  after the calls \<open>tr\<close>. Where the use case returns, it returns \<open>Inl\<close> of the error where the
  source returns \<^verbatim>\<open>nil, err\<close> and \<open>Inr\<close> of the output where it returns \<^verbatim>\<open>output, nil\<close>; a
  panic of the publisher's method is not recovered in the use case and ends it. Either way
  the result comes with the state after and the trace.
\<close>

definition CreateOrder_construct ::
  "'w OrderUseCase \<Rightarrow> Time \<Rightarrow> Time \<Rightarrow> CreateOrderInput \<Rightarrow> 'w \<Rightarrow> call list
     \<Rightarrow> (err + CreateOrderOutput) outcome \<times> 'w \<times> call list" where
  "CreateOrder_construct uc now1 now2 input w tr =
     (case NewOrder (Input_UserID input) (Input_Total input) now1 now2 of
        Inl e \<Rightarrow> (Returns (Inl e), w, tr)
      | Inr order \<Rightarrow>
          (case Create (repo uc) order w of
             ((order', cerr), w2) \<Rightarrow>
               if cerr \<noteq> nil_err
               then (Returns (Inl (App (NewInternal ''failed to create order'' cerr))), w2,
                     tr @ [Create_call order])
               else
                 (case publisher uc of
                    None \<Rightarrow>
                      (Returns (Inr \<lparr>Created_Order = order'\<rparr>), w2,
                       tr @ [Create_call order, Log_Info ''order created''])
                  | Some p \<Rightarrow>
                      (case PublishOrderCreated p order' w2 of
                         Panics msg \<Rightarrow>
                           (Panics msg, w2,
                            tr @ [Create_call order, PublishOrderCreated_call order'])
                       | Returns (perr, w3) \<Rightarrow>
                           (Returns (Inr \<lparr>Created_Order = order'\<rparr>), w3,
                            tr @ [Create_call order, PublishOrderCreated_call order']
                               @ (if perr \<noteq> nil_err
                                  then [Log_Error ''failed to publish order created event'']
                                  else [])
                               @ [Log_Info ''order created''])))))"

definition CreateOrder ::
  "'w OrderUseCase \<Rightarrow> Time \<Rightarrow> Time \<Rightarrow> CreateOrderInput \<Rightarrow> 'w
     \<Rightarrow> (err + CreateOrderOutput) outcome \<times> 'w \<times> call list" where
  "CreateOrder uc now1 now2 input w =
     (case userClient uc of
        None \<Rightarrow> CreateOrder_construct uc now1 now2 input w []
      | Some getUser \<Rightarrow>
          (case getUser (Input_UserID input) w of
             ((info, e), w1) \<Rightarrow>
               if e \<noteq> nil_err
               then (if Is e CodeNotFound
                     then (Returns (Inl (NewUserNotFoundError (Input_UserID input))), w1,
                           [GetUser_call (Input_UserID input)])
                     else (Returns (Inl (App (Wrap e ''failed to validate user''))), w1,
                           [GetUser_call (Input_UserID input)]))
               else CreateOrder_construct uc now1 now2 input w1
                      [GetUser_call (Input_UserID input)]))"

subsection \<open>GetOrder\<close>

definition GetOrder ::
  "'w OrderUseCase \<Rightarrow> GetOrderInput \<Rightarrow> 'w \<Rightarrow> (err + GetOrderOutput) \<times> 'w \<times> call list" where
  "GetOrder uc input w =
     (case GetByID (repo uc) (Input_ID input) w of
        ((order, e), w1) \<Rightarrow>
          if e \<noteq> nil_err then (Inl e, w1, [GetByID_call (Input_ID input)])
          else (Inr \<lparr>Got_Order = order\<rparr>, w1, [GetByID_call (Input_ID input)]))"

section \<open>Repositories and test doubles\<close>

subsection \<open>The doubles of the use case's tests\<close>

text \<open>
  \<^verbatim>\<open>MockOrderRepository\<close> (a map of orders and the next identifier) and \<^verbatim>\<open>MockEventPublisher\<close>
  (the list of published orders) make up the state; \<^verbatim>\<open>MockUserClient\<close> knows one user.
\<close>

record Mocks =
  orders :: "uint \<rightharpoonup> Order"
  nextID :: uint
  events :: "Order list"

definition NewMocks :: Mocks where
  "NewMocks = \<lparr>orders = Map.empty, nextID = 1, events = []\<rparr>"

definition Mock_Create :: "Order \<Rightarrow> Mocks \<Rightarrow> (Order \<times> err) \<times> Mocks" where
  "Mock_Create order m =
     (let order' = order\<lparr>ID := nextID m\<rparr>
      in ((order', nil_err), m\<lparr>nextID := nextID m + 1, orders := (orders m)(ID order' \<mapsto> order')\<rparr>))"

definition Mock_GetByID :: "uint \<Rightarrow> Mocks \<Rightarrow> (Order option \<times> err) \<times> Mocks" where
  "Mock_GetByID ident m =
     (case orders m ident of
        None \<Rightarrow> ((None, NewOrderNotFound ident), m)
      | Some order \<Rightarrow> ((Some order, nil_err), m))"

definition MockOrderRepository :: "Mocks OrderRepository" where
  "MockOrderRepository = \<lparr>Create = Mock_Create, GetByID = Mock_GetByID\<rparr>"

definition Mock_PublishOrderCreated :: "Mocks PublishOrderCreated_body" where
  "Mock_PublishOrderCreated order m = (nil_err, m\<lparr>events := events m @ [order]\<rparr>)"

definition Mock_users :: "uint \<rightharpoonup> UserInfo" where
  "Mock_users = [1 \<mapsto> \<lparr>Info_ID = 1, Info_Name = ''John Doe'', Info_Email = ''john@example.com''\<rparr>]"

definition Mock_GetUser :: "'w UserClient" where
  "Mock_GetUser userID w =
     (case Mock_users userID of
        None \<Rightarrow> ((None, App (NewNotFound ''user'' (UintValue userID))), w)
      | Some user \<Rightarrow> ((Some user, nil_err), w))"

text \<open>The use case as the tests assemble it.\<close>

definition MockUseCase :: "Mocks OrderUseCase" where
  "MockUseCase =
     \<lparr>repo = MockOrderRepository, publisher = Some (Publisher Mock_PublishOrderCreated),
      userClient = Some Mock_GetUser\<rparr>"

text \<open>
  Two more doubles, for the failures the doubles of the tests never produce: a user client
  and a publisher whose call fails with a given error and changes nothing.
\<close>

definition Failing_GetUser :: "err \<Rightarrow> 'w UserClient" where
  "Failing_GetUser e userID w = ((None, e), w)"

definition Failing_PublishOrderCreated :: "err \<Rightarrow> 'w PublishOrderCreated_body" where
  "Failing_PublishOrderCreated e order w = (e, w)"

subsection \<open>The SQL repository\<close>

text \<open>
  What the query \<^verbatim>\<open>db.First(&model, id)\<close> of the storage library reports: the row with that
  primary key, the error \<^verbatim>\<open>ErrRecordNotFound\<close> when there is none, or another error.
\<close>

datatype first_result = first_row Order | ErrRecordNotFound | first_error err

text \<open>
  \<^verbatim>\<open>PostgresOrderRepository.GetByID\<close> over a database \<open>'db\<close> whose query is \<open>first\<close>; the row
  model has the fields of the order, and \<^verbatim>\<open>toDomain\<close> copies them one by one.
\<close>

definition Postgres_GetByID ::
  "(uint \<Rightarrow> 'db \<Rightarrow> first_result) \<Rightarrow> uint \<Rightarrow> 'db \<Rightarrow> (Order option \<times> err) \<times> 'db" where
  "Postgres_GetByID first ident db =
     (case first ident db of
        ErrRecordNotFound \<Rightarrow> ((None, NewOrderNotFound ident), db)
      | first_error e \<Rightarrow> ((None, App (NewInternal ''failed to get order'' e)), db)
      | first_row model \<Rightarrow> ((Some model, nil_err), db))"

section \<open>Properties of the error taxonomy\<close>

lemmas Code_defs =
  CodeValidation_def CodeNotFound_def CodeConflict_def
  CodeInternal_def CodeUnauthorized_def CodeForbidden_def

lemmas http_defs =
  http_StatusBadRequest_def http_StatusUnauthorized_def http_StatusForbidden_def
  http_StatusNotFound_def http_StatusConflict_def http_StatusInternalServerError_def

text \<open>
  C5. For every error, the HTTP status is 400 for kind Validation, 404 for NotFound, 409 for
  Conflict, 401 for Unauthorized, 403 for Forbidden, and 500 for Internal and for every error
  that is none of the first five: an error with no \<^verbatim>\<open>*AppError\<close> on its chain, nil included, or
  one whose code is not among them.
\<close>

theorem HTTPStatus_table:
  "(Is e CodeValidation \<longrightarrow> HTTPStatus e = 400) \<and>
   (Is e CodeNotFound \<longrightarrow> HTTPStatus e = 404) \<and>
   (Is e CodeConflict \<longrightarrow> HTTPStatus e = 409) \<and>
   (Is e CodeUnauthorized \<longrightarrow> HTTPStatus e = 401) \<and>
   (Is e CodeForbidden \<longrightarrow> HTTPStatus e = 403) \<and>
   (Is e CodeInternal \<longrightarrow> HTTPStatus e = 500) \<and>
   (\<not> Is e CodeValidation \<and> \<not> Is e CodeNotFound \<and> \<not> Is e CodeConflict \<and>
    \<not> Is e CodeUnauthorized \<and> \<not> Is e CodeForbidden \<longrightarrow> HTTPStatus e = 500)"
  by (cases "errors_As e") (simp_all add: Is_def HTTPStatus_def http_defs Code_defs)

theorem HTTPStatus_table_witness:
  "(Is (App (NewValidation ''bad input'' NoDetails)) CodeValidation \<and>
      HTTPStatus (App (NewValidation ''bad input'' NoDetails)) = 400) \<and>
   (Is (App (NewNotFound ''order'' (UintValue 7))) CodeNotFound \<and>
      HTTPStatus (App (NewNotFound ''order'' (UintValue 7))) = 404) \<and>
   (Is (App (NewConflict ''email already exists'')) CodeConflict \<and>
      HTTPStatus (App (NewConflict ''email already exists'')) = 409) \<and>
   (Is (App (NewUnauthorized ''no token'')) CodeUnauthorized \<and>
      HTTPStatus (App (NewUnauthorized ''no token'')) = 401) \<and>
   (Is (App (AppError CodeForbidden ''denied'' NoDetails nil_err)) CodeForbidden \<and>
      HTTPStatus (App (AppError CodeForbidden ''denied'' NoDetails nil_err)) = 403) \<and>
   (Is (Foreign ''query: disk full'' (App (NewInternal ''disk full'' nil_err))) CodeInternal \<and>
      HTTPStatus (Foreign ''query: disk full'' (App (NewInternal ''disk full'' nil_err))) = 500) \<and>
   HTTPStatus (StatusErr codes_Unavailable ''connection refused'') = 500"
  using HTTPStatus_table [of "App (NewValidation ''bad input'' NoDetails)"]
    HTTPStatus_table [of "App (NewNotFound ''order'' (UintValue 7))"]
    HTTPStatus_table [of "App (NewConflict ''email already exists'')"]
    HTTPStatus_table [of "App (NewUnauthorized ''no token'')"]
    HTTPStatus_table [of "App (AppError CodeForbidden ''denied'' NoDetails nil_err)"]
    HTTPStatus_table [of "Foreign ''query: disk full'' (App (NewInternal ''disk full'' nil_err))"]
    HTTPStatus_table [of "StatusErr codes_Unavailable ''connection refused''"]
  by (simp add: Is_def NewValidation_def NewNotFound_def NewConflict_def NewUnauthorized_def
      NewInternal_def Code_defs)

text \<open>
  C7. For every error \<open>e\<close> of the taxonomy (one with an \<^verbatim>\<open>*AppError\<close> \<open>a\<close> on its chain) and every
  message \<open>m\<close>, \<^verbatim>\<open>Wrap(e, m)\<close> has the code and the details of \<open>a\<close>, the message of \<open>a\<close> prefixed
  with \<open>m\<close> and a colon, and \<open>e\<close> as its cause; and the kind test \<^verbatim>\<open>Is\<close> answers on the wrapped
  error, for every code, what it answers on \<open>e\<close>: classification survives wrapping.
\<close>

theorem Wrap_preserves_kind:
  assumes "errors_As e = Some a"
  shows "Code (Wrap e m) = Code a \<and>
         Details (Wrap e m) = Details a \<and>
         Message (Wrap e m) = m @ '': '' @ Message a \<and>
         Err (Wrap e m) = e \<and>
         (\<forall>k. Is (App (Wrap e m)) k = Is e k) \<and>
         Is (App (Wrap e m)) (Code a)"
  using assms by (simp add: Wrap_def Is_def)

theorem Wrap_preserves_kind_witness:
  "errors_As (App (NewValidation ''user not found'' (MapDetails [(''user_id'', UintValue 999)])))
     = Some (NewValidation ''user not found'' (MapDetails [(''user_id'', UintValue 999)])) \<and>
   Wrap (App (NewValidation ''user not found'' (MapDetails [(''user_id'', UintValue 999)])))
        ''create order''
     = AppError CodeValidation ''create order: user not found''
         (MapDetails [(''user_id'', UintValue 999)])
         (App (NewValidation ''user not found'' (MapDetails [(''user_id'', UintValue 999)]))) \<and>
   Is (App (Wrap (App (NewValidation ''user not found''
                         (MapDetails [(''user_id'', UintValue 999)]))) ''create order''))
      CodeValidation"
  using Wrap_preserves_kind
    [of "App (NewValidation ''user not found'' (MapDetails [(''user_id'', UintValue 999)]))"
        "NewValidation ''user not found'' (MapDetails [(''user_id'', UintValue 999)])"
        "''create order''"]
  by (simp add: NewValidation_def Wrap_def Is_def)

section \<open>Properties of the order entity\<close>

text \<open>
  C3. \<^verbatim>\<open>Order.Validate\<close> fails exactly when the user identifier is zero, the total is at most 0,
  or the total is greater than 1,000,000. The checks run in that order and the first that
  fails decides the error: "user_id is required", then "total must be greater than 0", then
  "total cannot exceed 1,000,000", each of kind Validation. For a finite total the
  comparisons are those of the real numbers, so every total in (0, 1000000] passes with a
  non-zero user identifier.
\<close>

theorem Order_Validate_spec:
  "(Order_Validate ord \<noteq> nil_err \<longleftrightarrow>
      UserID ord = 0 \<or> f64_le (Total ord) (Finite 0) \<or> f64_gt (Total ord) (Finite 1000000)) \<and>
   (UserID ord = 0 \<longrightarrow>
      Order_Validate ord = App (NewValidation ''user_id is required'' NoDetails)) \<and>
   (UserID ord \<noteq> 0 \<and> f64_le (Total ord) (Finite 0) \<longrightarrow>
      Order_Validate ord = App (NewValidation ''total must be greater than 0'' NoDetails)) \<and>
   (UserID ord \<noteq> 0 \<and> \<not> f64_le (Total ord) (Finite 0) \<and> f64_gt (Total ord) (Finite 1000000) \<longrightarrow>
      Order_Validate ord = App (NewValidation ''total cannot exceed 1,000,000'' NoDetails)) \<and>
   (Order_Validate ord \<noteq> nil_err \<longrightarrow> Is (Order_Validate ord) CodeValidation) \<and>
   (\<forall>t. Total ord = Finite t \<longrightarrow>
      (Order_Validate ord \<noteq> nil_err \<longleftrightarrow> UserID ord = 0 \<or> t \<le> 0 \<or> 1000000 < t)) \<and>
   (\<forall>t. UserID ord \<noteq> 0 \<and> Total ord = Finite t \<and> 0 < t \<and> t \<le> 1000000 \<longrightarrow>
      Order_Validate ord = nil_err)"
  by (auto simp add: Order_Validate_def ErrUserIDRequired_def ErrInvalidTotal_def
      ErrTotalTooHigh_def NewValidation_def Is_def)

theorem Order_Validate_spec_witness:
  "Order_Validate \<lparr>ID = 0, UserID = 0, Total = Finite (-10), Status = OrderStatusPending,
                    CreatedAt = 0, UpdatedAt = 0\<rparr>
     = App (NewValidation ''user_id is required'' NoDetails) \<and>
   Order_Validate \<lparr>ID = 0, UserID = 1, Total = Finite (-10), Status = OrderStatusPending,
                    CreatedAt = 0, UpdatedAt = 0\<rparr>
     = App (NewValidation ''total must be greater than 0'' NoDetails) \<and>
   Is (Order_Validate \<lparr>ID = 0, UserID = 1, Total = Finite (-10), Status = OrderStatusPending,
                    CreatedAt = 0, UpdatedAt = 0\<rparr>) CodeValidation \<and>
   Order_Validate \<lparr>ID = 0, UserID = 1, Total = Finite 1000000.5, Status = OrderStatusPending,
                    CreatedAt = 0, UpdatedAt = 0\<rparr>
     = App (NewValidation ''total cannot exceed 1,000,000'' NoDetails) \<and>
   Order_Validate \<lparr>ID = 0, UserID = 1, Total = Finite 1000000, Status = OrderStatusPending,
                    CreatedAt = 0, UpdatedAt = 0\<rparr>
     = nil_err"
  using
    Order_Validate_spec [of "\<lparr>ID = 0, UserID = 0, Total = Finite (-10), Status = OrderStatusPending,
                    CreatedAt = 0, UpdatedAt = 0\<rparr>"]
    Order_Validate_spec [of "\<lparr>ID = 0, UserID = 1, Total = Finite (-10), Status = OrderStatusPending,
                    CreatedAt = 0, UpdatedAt = 0\<rparr>"]
    Order_Validate_spec [of "\<lparr>ID = 0, UserID = 1, Total = Finite 1000000.5, Status = OrderStatusPending,
                    CreatedAt = 0, UpdatedAt = 0\<rparr>"]
    Order_Validate_spec [of "\<lparr>ID = 0, UserID = 1, Total = Finite 1000000, Status = OrderStatusPending,
                    CreatedAt = 0, UpdatedAt = 0\<rparr>"]
  by (simp add: Order_Validate_def ErrUserIDRequired_def ErrInvalidTotal_def
      ErrTotalTooHigh_def NewValidation_def Is_def)

text \<open>
  C10. For every order, whatever its status, \<^verbatim>\<open>Confirm\<close> sets the status to confirmed and
  \<^verbatim>\<open>Cancel\<close> sets it to cancelled; both set the last-update time to the clock reading, and the
  order after differs from the order before in these two fields only: identifier, user
  identifier, total and creation time are unchanged.
\<close>

theorem Confirm_Cancel_frame:
  "Status (Confirm ord now) = OrderStatusConfirmed \<and>
   Status (Cancel ord now) = OrderStatusCancelled \<and>
   UpdatedAt (Confirm ord now) = now \<and>
   UpdatedAt (Cancel ord now) = now \<and>
   Confirm ord now =
     ord\<lparr>Status := Status (Confirm ord now), UpdatedAt := UpdatedAt (Confirm ord now)\<rparr> \<and>
   Cancel ord now =
     ord\<lparr>Status := Status (Cancel ord now), UpdatedAt := UpdatedAt (Cancel ord now)\<rparr> \<and>
   ID (Confirm ord now) = ID ord \<and> UserID (Confirm ord now) = UserID ord \<and>
   Total (Confirm ord now) = Total ord \<and> CreatedAt (Confirm ord now) = CreatedAt ord \<and>
   ID (Cancel ord now) = ID ord \<and> UserID (Cancel ord now) = UserID ord \<and>
   Total (Cancel ord now) = Total ord \<and> CreatedAt (Cancel ord now) = CreatedAt ord"
  by (simp add: Confirm_def Cancel_def)

section \<open>Properties of the user entity\<close>

subsection \<open>The matcher decides the pattern\<close>

lemma nullable_iff: "nullable r \<longleftrightarrow> [] \<in> lang r"
  by (induction r) (auto simp add: conc_def intro: star_empty)

lemma conc_deriv:
  "{s. c # s \<in> conc A B} =
     conc {s. c # s \<in> A} B \<union> (if [] \<in> A then {s. c # s \<in> B} else {})"
  by (auto simp add: conc_def Cons_eq_append_conv)

lemma star_Cons_split:
  assumes "w \<in> star A" and "w = c # s"
  shows "\<exists>u v. s = u @ v \<and> c # u \<in> A \<and> v \<in> star A"
  using assms
proof (induction rule: star.induct)
  case star_empty
  then show ?case by simp
next
  case (star_step u v)
  show ?case
  proof (cases u)
    case Nil
    with star_step show ?thesis by simp
  next
    case (Cons a u')
    with star_step.prems have "a = c" and "s = u' @ v" by simp_all
    with Cons star_step.hyps show ?thesis by blast
  qed
qed

lemma star_deriv: "{s. c # s \<in> star A} = conc {s. c # s \<in> A} (star A)"
proof (intro set_eqI iffI)
  fix s assume "s \<in> {s. c # s \<in> star A}"
  then show "s \<in> conc {s. c # s \<in> A} (star A)"
    using star_Cons_split [of "c # s" A c s] by (auto simp add: conc_def)
next
  fix s assume "s \<in> conc {s. c # s \<in> A} (star A)"
  then obtain u v where "s = u @ v" "c # u \<in> A" "v \<in> star A"
    by (auto simp add: conc_def)
  then show "s \<in> {s. c # s \<in> star A}"
    using star_step [of "c # u" A v] by simp
qed

lemma lang_deriv: "lang (deriv c r) = {s. c # s \<in> lang r}"
proof (induction r)
  case (Cat r1 r2)
  then show ?case by (simp add: conc_deriv nullable_iff)
next
  case (Star r)
  then show ?case by (simp add: star_deriv)
qed auto

lemma MatchString_lang: "MatchString r s \<longleftrightarrow> s \<in> lang r"
  by (induction s arbitrary: r) (simp_all add: nullable_iff lang_deriv)

lemma star_Class: "star {[c] | c. in_class rs c} = {s. list_all (in_class rs) s}"
proof (intro set_eqI iffI)
  fix s assume "s \<in> star {[c] | c. in_class rs c}"
  then show "s \<in> {s. list_all (in_class rs) s}"
    by (induction rule: star.induct) auto
next
  fix s assume "s \<in> {s. list_all (in_class rs) s}"
  then have "list_all (in_class rs) s" by simp
  then show "s \<in> star {[c] | c. in_class rs c}"
  proof (induction s)
    case Nil
    show ?case by (rule star_empty)
  next
    case (Cons a s)
    then have "[a] \<in> {[c] | c. in_class rs c}" and "s \<in> star {[c] | c. in_class rs c}"
      by simp_all
    then have "[a] @ s \<in> star {[c] | c. in_class rs c}" by (rule star_step)
    then show ?case by simp
  qed
qed

lemma conc_Class:
  "conc {[c] | c. P c} B = {s. \<exists>c v. s = c # v \<and> P c \<and> v \<in> B}"
proof (intro set_eqI iffI)
  fix s assume "s \<in> conc {[c] | c. P c} B"
  then show "s \<in> {s. \<exists>c v. s = c # v \<and> P c \<and> v \<in> B}"
    by (auto simp add: conc_def)
next
  fix s assume "s \<in> {s. \<exists>c v. s = c # v \<and> P c \<and> v \<in> B}"
  then obtain c v where "s = [c] @ v" and "P c" and "v \<in> B" by auto
  then show "s \<in> conc {[c] | c. P c} B"
    unfolding conc_def by blast
qed

lemma lang_Plus_Class: "lang (Plus (Class rs)) = {s. s \<noteq> [] \<and> list_all (in_class rs) s}"
  by (auto simp add: Plus_def star_Class conc_Class neq_Nil_conv)

lemma lang_AtLeast2_Class:
  "lang (AtLeast2 (Class rs)) = {s. 2 \<le> length s \<and> list_all (in_class rs) s}"
proof -
  have "2 \<le> length s \<longleftrightarrow> (\<exists>a b s'. s = a # b # s')" for s :: string
    by (cases s; cases "tl s") auto
  then show ?thesis
    by (auto simp add: AtLeast2_def star_Class conc_Class)
qed

lemma lang_single: "lang (Class [(c, c)]) = {[c]}"
  by (auto simp add: in_class_def in_range_def)

lemma lang_EmailRegex:
  "lang EmailRegex =
     {l @ ''@'' @ d @ ''.'' @ t | l d t.
        l \<noteq> [] \<and> list_all (in_class local_class) l \<and>
        d \<noteq> [] \<and> list_all (in_class domain_class) d \<and>
        2 \<le> length t \<and> list_all (in_class letter_class) t}"
  unfolding EmailRegex_def lang.simps(4) lang_Plus_Class lang_AtLeast2_Class lang_single
  by (auto simp add: conc_def) blast+


lemma MatchString_EmailRegex:
  "MatchString EmailRegex e \<longleftrightarrow>
     (\<exists>l d t. e = l @ ''@'' @ d @ ''.'' @ t \<and>
        l \<noteq> [] \<and> list_all (in_class local_class) l \<and>
        d \<noteq> [] \<and> list_all (in_class domain_class) d \<and>
        2 \<le> length t \<and> list_all (in_class letter_class) t)"
  by (simp add: MatchString_lang lang_EmailRegex)

lemma MatchString_EmailRegex_at:
  assumes "MatchString EmailRegex e"
  shows "CHR ''@'' \<in> set e"
  using assms unfolding MatchString_EmailRegex by auto

lemma MatchString_EmailRegex_label:
  assumes "MatchString EmailRegex e"
  shows "\<exists>p t. e = p @ ''.'' @ t \<and> 2 \<le> length t \<and> list_all (in_class letter_class) t"
proof -
  from assms obtain l d t where "e = l @ ''@'' @ d @ ''.'' @ t"
    and "2 \<le> length t" and "list_all (in_class letter_class) t"
    unfolding MatchString_EmailRegex by blast
  then have "e = (l @ ''@'' @ d) @ ''.'' @ t" by simp
  with \<open>2 \<le> length t\<close> \<open>list_all (in_class letter_class) t\<close> show ?thesis by blast
qed

text \<open>
  C4. \<^verbatim>\<open>User.Validate\<close> fails exactly when the name is empty, the name is shorter than 2 or
  longer than 100, the email is empty, or the email does not match the pattern. The checks
  run in that order and the first that fails decides the error, always of kind Validation.
  An email matches exactly when it is a non-empty local part, an at sign, a non-empty domain
  part, a dot and a final label of two or more letters; so an email without an at sign, and
  an email that does not end in a dot followed by two or more letters, fails the check.
\<close>

theorem User_Validate_spec:
  "(User_Validate u \<noteq> nil_err \<longleftrightarrow>
      Name u = [] \<or> length (Name u) < 2 \<or> 100 < length (Name u) \<or> Email u = [] \<or>
      \<not> MatchString EmailRegex (Email u)) \<and>
   (Name u = [] \<longrightarrow> User_Validate u = App (NewValidation ''name is required'' NoDetails)) \<and>
   (Name u \<noteq> [] \<and> (length (Name u) < 2 \<or> 100 < length (Name u)) \<longrightarrow>
      User_Validate u =
        App (NewValidation ''name must be between 2 and 100 characters'' NoDetails)) \<and>
   (2 \<le> length (Name u) \<and> length (Name u) \<le> 100 \<and> Email u = [] \<longrightarrow>
      User_Validate u = App (NewValidation ''email is required'' NoDetails)) \<and>
   (2 \<le> length (Name u) \<and> length (Name u) \<le> 100 \<and> Email u \<noteq> [] \<and>
    \<not> MatchString EmailRegex (Email u) \<longrightarrow>
      User_Validate u = App (NewValidation ''email format is invalid'' NoDetails)) \<and>
   (User_Validate u \<noteq> nil_err \<longrightarrow> Is (User_Validate u) CodeValidation) \<and>
   (MatchString EmailRegex (Email u) \<longleftrightarrow>
      (\<exists>l d t. Email u = l @ ''@'' @ d @ ''.'' @ t \<and>
         l \<noteq> [] \<and> list_all (in_class local_class) l \<and>
         d \<noteq> [] \<and> list_all (in_class domain_class) d \<and>
         2 \<le> length t \<and> list_all (in_class letter_class) t)) \<and>
   (CHR ''@'' \<notin> set (Email u) \<longrightarrow>
      \<not> MatchString EmailRegex (Email u) \<and> User_Validate u \<noteq> nil_err) \<and>
   ((\<nexists>p t. Email u = p @ ''.'' @ t \<and> 2 \<le> length t \<and> list_all (in_class letter_class) t) \<longrightarrow>
      \<not> MatchString EmailRegex (Email u) \<and> User_Validate u \<noteq> nil_err)"
proof -
  have fails: "User_Validate u \<noteq> nil_err \<longleftrightarrow>
      Name u = [] \<or> length (Name u) < 2 \<or> 100 < length (Name u) \<or> Email u = [] \<or>
      \<not> MatchString EmailRegex (Email u)"
    by (simp add: User_Validate_def)
  have order: "(Name u = [] \<longrightarrow> User_Validate u = App (NewValidation ''name is required'' NoDetails)) \<and>
   (Name u \<noteq> [] \<and> (length (Name u) < 2 \<or> 100 < length (Name u)) \<longrightarrow>
      User_Validate u =
        App (NewValidation ''name must be between 2 and 100 characters'' NoDetails)) \<and>
   (2 \<le> length (Name u) \<and> length (Name u) \<le> 100 \<and> Email u = [] \<longrightarrow>
      User_Validate u = App (NewValidation ''email is required'' NoDetails)) \<and>
   (2 \<le> length (Name u) \<and> length (Name u) \<le> 100 \<and> Email u \<noteq> [] \<and>
    \<not> MatchString EmailRegex (Email u) \<longrightarrow>
      User_Validate u = App (NewValidation ''email format is invalid'' NoDetails))"
    by (auto simp add: User_Validate_def ErrNameRequired_def ErrNameLength_def
        ErrEmailRequired_def ErrEmailInvalid_def)
  have kind: "User_Validate u \<noteq> nil_err \<longrightarrow> Is (User_Validate u) CodeValidation"
    by (simp add: User_Validate_def ErrNameRequired_def ErrNameLength_def
        ErrEmailRequired_def ErrEmailInvalid_def NewValidation_def Is_def)
  have at: "CHR ''@'' \<notin> set (Email u) \<longrightarrow>
              \<not> MatchString EmailRegex (Email u) \<and> User_Validate u \<noteq> nil_err"
    using MatchString_EmailRegex_at [of "Email u"] fails by blast
  have label: "(\<nexists>p t. Email u = p @ ''.'' @ t \<and> 2 \<le> length t \<and>
                  list_all (in_class letter_class) t) \<longrightarrow>
              \<not> MatchString EmailRegex (Email u) \<and> User_Validate u \<noteq> nil_err"
    using MatchString_EmailRegex_label [of "Email u"] fails by blast
  from fails order kind MatchString_EmailRegex [of "Email u"] at label show ?thesis
    by blast
qed

theorem User_Validate_spec_witness:
  "User_Validate \<lparr>User_ID = 0, Name = [], Email = [], User_CreatedAt = 0, User_UpdatedAt = 0\<rparr>
     = App (NewValidation ''name is required'' NoDetails) \<and>
   User_Validate \<lparr>User_ID = 0, Name = ''J'', Email = [], User_CreatedAt = 0, User_UpdatedAt = 0\<rparr>
     = App (NewValidation ''name must be between 2 and 100 characters'' NoDetails) \<and>
   User_Validate \<lparr>User_ID = 0, Name = ''Jo'', Email = [], User_CreatedAt = 0, User_UpdatedAt = 0\<rparr>
     = App (NewValidation ''email is required'' NoDetails) \<and>
   CHR ''@'' \<notin> set ''jo.example.com'' \<and>
   User_Validate \<lparr>User_ID = 0, Name = ''Jo'', Email = ''jo.example.com'', User_CreatedAt = 0,
                   User_UpdatedAt = 0\<rparr>
     = App (NewValidation ''email format is invalid'' NoDetails) \<and>
   Is (User_Validate \<lparr>User_ID = 0, Name = ''Jo'', Email = ''jo.example.com'', User_CreatedAt = 0,
                   User_UpdatedAt = 0\<rparr>) CodeValidation \<and>
   MatchString EmailRegex ''jo@ex.io'' \<and>
   User_Validate \<lparr>User_ID = 0, Name = ''Jo'', Email = ''jo@ex.io'', User_CreatedAt = 0,
                   User_UpdatedAt = 0\<rparr>
     = nil_err"
proof -
  have m: "MatchString EmailRegex ''jo@ex.io''"
    by (simp add: EmailRegex_def Plus_def AtLeast2_def local_class_def domain_class_def
        letter_class_def in_class_def in_range_def)
  have a: "CHR ''@'' \<notin> set ''jo.example.com''" by simp
  show ?thesis
    using m a
      User_Validate_spec [of "\<lparr>User_ID = 0, Name = [], Email = [], User_CreatedAt = 0,
                   User_UpdatedAt = 0\<rparr>"]
      User_Validate_spec [of "\<lparr>User_ID = 0, Name = ''J'', Email = [], User_CreatedAt = 0,
                   User_UpdatedAt = 0\<rparr>"]
      User_Validate_spec [of "\<lparr>User_ID = 0, Name = ''Jo'', Email = [], User_CreatedAt = 0,
                   User_UpdatedAt = 0\<rparr>"]
      User_Validate_spec [of "\<lparr>User_ID = 0, Name = ''Jo'', Email = ''jo.example.com'',
                   User_CreatedAt = 0, User_UpdatedAt = 0\<rparr>"]
      User_Validate_spec [of "\<lparr>User_ID = 0, Name = ''Jo'', Email = ''jo@ex.io'',
                   User_CreatedAt = 0, User_UpdatedAt = 0\<rparr>"]
    by (simp add: EmailRegex_def Plus_def AtLeast2_def local_class_def domain_class_def
        letter_class_def in_class_def in_range_def Is_def NewValidation_def)
qed

section \<open>Translation to and from the RPC status\<close>

text \<open>
  C6, as stated, fails on its second half: an RPC status outside the table comes back as kind
  Internal, but its text is not kept in the details, which are empty; here for the status
  Unavailable.
\<close>

theorem FromGRPCStatus_details_counterexample:
  "FromGRPCStatus (StatusErr codes_Unavailable ''connection refused'')
     = AppError CodeInternal ''connection refused'' NoDetails
         (StatusErr codes_Unavailable ''connection refused'') \<and>
   Details (FromGRPCStatus (StatusErr codes_Unavailable ''connection refused'')) = NoDetails"
  by (simp add: FromGRPCStatus_def status_FromError_def)

text \<open>
  C6, amended. For every error \<open>e\<close> of the six kinds, \<^verbatim>\<open>FromGRPCStatus(GRPCStatus(e))\<close> has the
  kind of \<open>e\<close>, and its message. An RPC status whose code is outside the table becomes kind
  Internal with the text of the status as its message and the status error as its cause, and
  no details. An error that carries no RPC status at all becomes kind Internal with the
  message "unknown error", the error as its cause, and no details.
\<close>

theorem FromGRPCStatus_inverts:
  "(\<forall>a. errors_As e = Some a \<and>
         Code a \<in> {CodeValidation, CodeNotFound, CodeConflict, CodeUnauthorized,
                   CodeForbidden, CodeInternal} \<longrightarrow>
       Code (FromGRPCStatus (GRPCStatus e)) = Code a \<and>
       Message (FromGRPCStatus (GRPCStatus e)) = Message a \<and>
       Is (App (FromGRPCStatus (GRPCStatus e))) (Code a)) \<and>
   (c \<notin> {codes_InvalidArgument, codes_NotFound, codes_AlreadyExists, codes_Unauthenticated,
          codes_PermissionDenied} \<longrightarrow>
       FromGRPCStatus (StatusErr c m) = AppError CodeInternal m NoDetails (StatusErr c m)) \<and>
   (e \<noteq> nil_err \<and> chain_status e = None \<longrightarrow>
       FromGRPCStatus e = AppError CodeInternal ''unknown error'' NoDetails e)"
proof -
  have roundtrip: "Code (FromGRPCStatus (GRPCStatus e)) = Code a \<and>
       Message (FromGRPCStatus (GRPCStatus e)) = Message a \<and>
       Is (App (FromGRPCStatus (GRPCStatus e))) (Code a)"
    if "errors_As e = Some a"
      and "Code a \<in> {CodeValidation, CodeNotFound, CodeConflict, CodeUnauthorized,
                   CodeForbidden, CodeInternal}" for a
    using that
    by (auto simp add: FromGRPCStatus_def status_FromError_def GRPCStatus_def status_Error_def
        Is_def Code_defs)
  have outside: "FromGRPCStatus (StatusErr c m) = AppError CodeInternal m NoDetails (StatusErr c m)"
    if "c \<notin> {codes_InvalidArgument, codes_NotFound, codes_AlreadyExists, codes_Unauthenticated,
          codes_PermissionDenied}"
    using that by (simp add: FromGRPCStatus_def status_FromError_def)
  have foreign: "FromGRPCStatus e = AppError CodeInternal ''unknown error'' NoDetails e"
    if "e \<noteq> nil_err" and "chain_status e = None"
    using that
    by (cases e) (simp_all add: FromGRPCStatus_def status_FromError_def NewInternal_def)
  from roundtrip outside foreign show ?thesis by blast
qed

theorem FromGRPCStatus_inverts_witness:
  "Code (FromGRPCStatus (GRPCStatus (App (NewNotFound ''user'' (UintValue 999))))) = CodeNotFound \<and>
   Message (FromGRPCStatus (GRPCStatus (App (NewNotFound ''user'' (UintValue 999)))))
     = Message (NewNotFound ''user'' (UintValue 999)) \<and>
   FromGRPCStatus (StatusErr codes_DeadlineExceeded ''context deadline exceeded'')
     = AppError CodeInternal ''context deadline exceeded'' NoDetails
         (StatusErr codes_DeadlineExceeded ''context deadline exceeded'') \<and>
   FromGRPCStatus (Foreign ''dial tcp: connection refused'' nil_err)
     = AppError CodeInternal ''unknown error'' NoDetails
         (Foreign ''dial tcp: connection refused'' nil_err)"
  using
    FromGRPCStatus_inverts [of "App (NewNotFound ''user'' (UintValue 999))"
      codes_DeadlineExceeded "''context deadline exceeded''"]
    FromGRPCStatus_inverts [of "Foreign ''dial tcp: connection refused'' nil_err"
      codes_DeadlineExceeded "''context deadline exceeded''"]
  by (simp add: NewNotFound_def Code_defs)

section \<open>Properties of the use case\<close>

text \<open>
  C9. \<^verbatim>\<open>GetOrder\<close> makes one call, the repository's \<^verbatim>\<open>GetByID\<close>, and returns its error as it is,
  or its order when the error is nil. With either repository of the source, the double of the
  tests and the SQL one, an identifier with no stored order gives the NotFound error whose
  message is "order with id '<id>' not found", the identifier in decimal.
\<close>

theorem GetOrder_passthrough:
  "(\<forall>order e w1. GetByID (repo uc) ident w = ((order, e), w1) \<and> e \<noteq> nil_err \<longrightarrow>
       GetOrder uc \<lparr>Input_ID = ident\<rparr> w = (Inl e, w1, [GetByID_call ident])) \<and>
   (\<forall>order w1. GetByID (repo uc) ident w = ((order, nil_err), w1) \<longrightarrow>
       GetOrder uc \<lparr>Input_ID = ident\<rparr> w = (Inr \<lparr>Got_Order = order\<rparr>, w1, [GetByID_call ident])) \<and>
   (orders m ident = None \<longrightarrow>
       GetOrder \<lparr>repo = MockOrderRepository, publisher = pub, userClient = cl\<rparr>
         \<lparr>Input_ID = ident\<rparr> m
       = (Inl (App (AppError CodeNotFound
                 (''order with id '' @ [CHR 0x27] @ fmt_decimal (unat ident) @ [CHR 0x27]
                    @ '' not found'')
                 NoDetails nil_err)),
          m, [GetByID_call ident])) \<and>
   (first ident db = ErrRecordNotFound \<longrightarrow>
       GetOrder \<lparr>repo = \<lparr>Create = cr, GetByID = Postgres_GetByID first\<rparr>, publisher = pub',
                 userClient = cl'\<rparr> \<lparr>Input_ID = ident\<rparr> db
       = (Inl (App (AppError CodeNotFound
                 (''order with id '' @ [CHR 0x27] @ fmt_decimal (unat ident) @ [CHR 0x27]
                    @ '' not found'')
                 NoDetails nil_err)),
          db, [GetByID_call ident]))"
  by (simp add: GetOrder_def MockOrderRepository_def Mock_GetByID_def Postgres_GetByID_def
      NewOrderNotFound_def NewNotFound_def)

theorem GetOrder_passthrough_witness:
  "GetOrder MockUseCase \<lparr>Input_ID = 999\<rparr> NewMocks
     = (Inl (App (AppError CodeNotFound
                 (''order with id '' @ [CHR 0x27] @ ''999'' @ [CHR 0x27] @ '' not found'')
                 NoDetails nil_err)),
        NewMocks, [GetByID_call 999]) \<and>
   Is (App (AppError CodeNotFound
                 (''order with id '' @ [CHR 0x27] @ ''999'' @ [CHR 0x27] @ '' not found'')
                 NoDetails nil_err)) CodeNotFound"
proof -
  have absent: "orders NewMocks 999 = None"
    by (simp add: NewMocks_def)
  have digits: "fmt_decimal (unat (999 :: uint)) = ''999''"
    by (simp add: fmt_decimal.simps)
  from absent digits
    GetOrder_passthrough [of MockUseCase 999 NewMocks NewMocks "Some (Publisher Mock_PublishOrderCreated)"
      "Some Mock_GetUser" "\<lambda>i d. ErrRecordNotFound" NewMocks Mock_Create None None]
  show ?thesis
    by (simp add: MockUseCase_def Is_def)
qed

text \<open>
  C1, as stated, fails on its second half: a lookup failure of a kind other than NotFound is
  not returned as kind Internal when it has a kind of its own. Here the user service denies
  permission, the client translates the status to kind Forbidden, and \<^verbatim>\<open>CreateOrder\<close> returns
  kind Forbidden.
\<close>

theorem CreateOrder_lookup_kind_counterexample:
  "CreateOrder
     \<lparr>repo = MockOrderRepository, publisher = Some (Publisher Mock_PublishOrderCreated),
      userClient =
        Some (Failing_GetUser
                (App (FromGRPCStatus (StatusErr codes_PermissionDenied ''access denied''))))\<rparr>
     5 6 \<lparr>Input_UserID = 1, Input_Total = Finite 10\<rparr> NewMocks
   = (Returns (Inl (App (AppError CodeForbidden ''failed to validate user: access denied'' NoDetails
                  (App (AppError CodeForbidden ''access denied'' NoDetails
                          (StatusErr codes_PermissionDenied ''access denied'')))))),
      NewMocks, [GetUser_call 1]) \<and>
   \<not> Is (App (AppError CodeForbidden ''failed to validate user: access denied'' NoDetails
                  (App (AppError CodeForbidden ''access denied'' NoDetails
                          (StatusErr codes_PermissionDenied ''access denied'')))))
         CodeInternal"
  by (simp add: CreateOrder_def Failing_GetUser_def FromGRPCStatus_def status_FromError_def
      Is_def Wrap_def Code_defs)

text \<open>
  C1, amended. With a lookup client configured and \<^verbatim>\<open>GetUser\<close> failing with the error \<open>e\<close>: if
  \<open>e\<close> is of kind NotFound, \<^verbatim>\<open>CreateOrder\<close> returns the Validation error "user not found" with
  the details \<open>{user_id: <the input id>}\<close>; otherwise it returns \<^verbatim>\<open>Wrap(e, "failed to validate
  user")\<close>, which keeps the kind and details of \<open>e\<close> and prefixes its message with "failed to
  validate user: " when \<open>e\<close> is of the taxonomy, and is kind Internal with the message "failed
  to validate user" when it is not; so a failure of kind Internal, or of no kind, is returned
  as kind Internal. In both cases the lookup is the only call made: nothing is persisted and
  nothing is published.
\<close>

theorem CreateOrder_lookup_failure:
  assumes "userClient uc = Some getUser"
    and "getUser (Input_UserID input) w = ((info, e), w1)"
    and "e \<noteq> nil_err"
  shows "(Is e CodeNotFound \<longrightarrow>
            CreateOrder uc now1 now2 input w
            = (Returns (Inl (App (AppError CodeValidation ''user not found''
                           (MapDetails [(''user_id'', UintValue (Input_UserID input))]) nil_err))),
               w1, [GetUser_call (Input_UserID input)])) \<and>
         (\<not> Is e CodeNotFound \<longrightarrow>
            CreateOrder uc now1 now2 input w
            = (Returns (Inl (App (Wrap e ''failed to validate user''))), w1,
               [GetUser_call (Input_UserID input)])) \<and>
         (\<forall>a. errors_As e = Some a \<longrightarrow>
            Wrap e ''failed to validate user''
            = AppError (Code a) (''failed to validate user: '' @ Message a) (Details a) e) \<and>
         (errors_As e = None \<longrightarrow>
            Wrap e ''failed to validate user''
            = AppError CodeInternal ''failed to validate user'' NoDetails e) \<and>
         (Is e CodeInternal \<or> errors_As e = None \<longrightarrow>
            Is (App (Wrap e ''failed to validate user'')) CodeInternal) \<and>
         snd (CreateOrder uc now1 now2 input w) = (w1, [GetUser_call (Input_UserID input)])"
  using assms
  by (auto simp add: CreateOrder_def NewUserNotFoundError_def NewValidation_def Wrap_def
      NewInternal_def Is_def split: option.splits)

theorem CreateOrder_lookup_failure_witness:
  "CreateOrder MockUseCase 5 6 \<lparr>Input_UserID = 999, Input_Total = Finite 99.99\<rparr> NewMocks
   = (Returns (Inl (App (AppError CodeValidation ''user not found''
                  (MapDetails [(''user_id'', UintValue 999)]) nil_err))),
      NewMocks, [GetUser_call 999]) \<and>
   CreateOrder
     \<lparr>repo = MockOrderRepository, publisher = Some (Publisher Mock_PublishOrderCreated),
      userClient = Some (Failing_GetUser (App (NewInternal ''users service down'' nil_err)))\<rparr>
     5 6 \<lparr>Input_UserID = 1, Input_Total = Finite 99.99\<rparr> NewMocks
   = (Returns (Inl (App (AppError CodeInternal ''failed to validate user: users service down'' NoDetails
                  (App (NewInternal ''users service down'' nil_err))))),
      NewMocks, [GetUser_call 1])"
proof -
  let ?nf = "App (NewNotFound ''user'' (UintValue 999))"
  let ?down = "App (NewInternal ''users service down'' nil_err)"
  let ?uc = "\<lparr>repo = MockOrderRepository, publisher = Some (Publisher Mock_PublishOrderCreated),
      userClient = Some (Failing_GetUser ?down)\<rparr>"
  have c1: "userClient MockUseCase = Some Mock_GetUser"
    by (simp add: MockUseCase_def)
  have g1: "Mock_GetUser (Input_UserID \<lparr>Input_UserID = 999, Input_Total = Finite 99.99\<rparr>) NewMocks
              = ((None, ?nf), NewMocks)"
    by (simp add: Mock_GetUser_def Mock_users_def)
  have n1: "?nf \<noteq> nil_err" by simp
  have k1: "Is ?nf CodeNotFound" by (simp add: Is_def NewNotFound_def)
  have c2: "userClient ?uc = Some (Failing_GetUser ?down)" by simp
  have g2: "Failing_GetUser ?down (Input_UserID \<lparr>Input_UserID = 1, Input_Total = Finite 99.99\<rparr>)
              NewMocks = ((None, ?down), NewMocks)"
    by (simp add: Failing_GetUser_def)
  have n2: "?down \<noteq> nil_err" by simp
  have k2: "\<not> Is ?down CodeNotFound" by (simp add: Is_def NewInternal_def Code_defs)
  from CreateOrder_lookup_failure [OF c1 g1 n1, of 5 6] k1
    CreateOrder_lookup_failure [OF c2 g2 n2, of 5 6] k2
  show ?thesis
    by (simp add: NewInternal_def)
qed

text \<open>
  C2, as stated, fails: with a lookup client configured, the remote lookup is called before
  the total is validated. For the input with user 1 and total -10 the trace holds the call
  of \<^verbatim>\<open>GetUser\<close>; and when that lookup fails for another reason, the error returned is not of
  kind Validation.
\<close>

theorem CreateOrder_invalid_total_counterexample:
  "CreateOrder MockUseCase 5 6 \<lparr>Input_UserID = 1, Input_Total = Finite (-10)\<rparr> NewMocks
   = (Returns (Inl (App (NewValidation ''total must be greater than 0'' NoDetails))), NewMocks,
      [GetUser_call 1]) \<and>
   CreateOrder
     \<lparr>repo = MockOrderRepository, publisher = Some (Publisher Mock_PublishOrderCreated),
      userClient = Some (Failing_GetUser (App (NewInternal ''users service down'' nil_err)))\<rparr>
     5 6 \<lparr>Input_UserID = 1, Input_Total = Finite (-10)\<rparr> NewMocks
   = (Returns (Inl (App (AppError CodeInternal ''failed to validate user: users service down'' NoDetails
                  (App (NewInternal ''users service down'' nil_err))))),
      NewMocks, [GetUser_call 1]) \<and>
   \<not> Is (App (AppError CodeInternal ''failed to validate user: users service down'' NoDetails
                  (App (NewInternal ''users service down'' nil_err))))
         CodeValidation"
  by (simp add: CreateOrder_def CreateOrder_construct_def MockUseCase_def Mock_GetUser_def
      Mock_users_def Failing_GetUser_def NewOrder_def Order_Validate_def ErrInvalidTotal_def
      Is_def Wrap_def NewInternal_def Code_defs)

lemma NewOrder_invalid_total:
  assumes "f64_le tot (Finite 0) \<or> f64_gt tot (Finite 1000000)"
  shows "NewOrder userID tot now1 now2
         = Inl (Order_Validate \<lparr>ID = 0, UserID = userID, Total = tot,
                                Status = OrderStatusPending, CreatedAt = now1,
                                UpdatedAt = now2\<rparr>)"
    and "Is (Order_Validate \<lparr>ID = 0, UserID = userID, Total = tot,
                              Status = OrderStatusPending, CreatedAt = now1,
                              UpdatedAt = now2\<rparr>) CodeValidation"
  using assms
  by (auto simp add: NewOrder_def Order_Validate_def Let_def Is_def ErrUserIDRequired_def
      ErrInvalidTotal_def ErrTotalTooHigh_def NewValidation_def)

text \<open>
  C2, amended. For every input whose total fails validation (at most 0, or greater than
  1,000,000), \<^verbatim>\<open>CreateOrder\<close> fails, never calls the repository's \<^verbatim>\<open>Create\<close> and never
  publishes an event: the only call it can make is the one lookup of the user. With no lookup
  client it makes no call at all and returns the Validation error of \<^verbatim>\<open>Order.Validate\<close>; with a
  lookup client whose call succeeds it returns that same Validation error after the lookup.
\<close>

theorem CreateOrder_invalid_total:
  assumes "f64_le (Input_Total input) (Finite 0) \<or> f64_gt (Input_Total input) (Finite 1000000)"
  shows "(\<exists>e. fst (CreateOrder uc now1 now2 input w) = Returns (Inl e) \<and> e \<noteq> nil_err) \<and>
         set (snd (snd (CreateOrder uc now1 now2 input w))) \<subseteq> {GetUser_call (Input_UserID input)} \<and>
         (userClient uc = None \<longrightarrow>
            CreateOrder uc now1 now2 input w
            = (Returns (Inl (Order_Validate
                      \<lparr>ID = 0, UserID = Input_UserID input, Total = Input_Total input,
                       Status = OrderStatusPending, CreatedAt = now1, UpdatedAt = now2\<rparr>)),
               w, [])) \<and>
         (\<forall>getUser info w1.
            userClient uc = Some getUser \<and>
            getUser (Input_UserID input) w = ((info, nil_err), w1) \<longrightarrow>
            CreateOrder uc now1 now2 input w
            = (Returns (Inl (Order_Validate
                      \<lparr>ID = 0, UserID = Input_UserID input, Total = Input_Total input,
                       Status = OrderStatusPending, CreatedAt = now1, UpdatedAt = now2\<rparr>)),
               w1, [GetUser_call (Input_UserID input)])) \<and>
         Is (Order_Validate
               \<lparr>ID = 0, UserID = Input_UserID input, Total = Input_Total input,
                Status = OrderStatusPending, CreatedAt = now1, UpdatedAt = now2\<rparr>)
            CodeValidation"
proof -
  let ?v = "Order_Validate
               \<lparr>ID = 0, UserID = Input_UserID input, Total = Input_Total input,
                Status = OrderStatusPending, CreatedAt = now1, UpdatedAt = now2\<rparr>"
  note new = NewOrder_invalid_total [OF assms, of "Input_UserID input" now1 now2]
  have construct: "CreateOrder_construct uc now1 now2 input w' tr = (Returns (Inl ?v), w', tr)" for w' tr
    by (simp add: CreateOrder_construct_def new(1))
  have nonnil: "?v \<noteq> nil_err"
    using new(2) by (auto simp add: Is_def)
  show ?thesis
  proof (cases "userClient uc")
    case None
    then have "CreateOrder uc now1 now2 input w = (Returns (Inl ?v), w, [])"
      by (simp add: CreateOrder_def construct)
    with None nonnil new(2) show ?thesis by simp
  next
    case (Some getUser)
    obtain info e w1 where g: "getUser (Input_UserID input) w = ((info, e), w1)"
      by (metis prod.exhaust)
    show ?thesis
    proof (cases "e = nil_err")
      case True
      with Some g have "CreateOrder uc now1 now2 input w
                        = (Returns (Inl ?v), w1, [GetUser_call (Input_UserID input)])"
        by (simp add: CreateOrder_def construct)
      with Some g True nonnil new(2) show ?thesis by simp
    next
      case False
      with Some g show ?thesis
        using new(2)
        by (simp add: CreateOrder_def NewUserNotFoundError_def)
    qed
  qed
qed

theorem CreateOrder_invalid_total_witness:
  "CreateOrder \<lparr>repo = MockOrderRepository, publisher = Some (Publisher Mock_PublishOrderCreated),
                userClient = None\<rparr>
     5 6 \<lparr>Input_UserID = 1, Input_Total = Finite (-10)\<rparr> NewMocks
   = (Returns (Inl (App (NewValidation ''total must be greater than 0'' NoDetails))), NewMocks, []) \<and>
   CreateOrder MockUseCase 5 6 \<lparr>Input_UserID = 1, Input_Total = Finite (-10)\<rparr> NewMocks
   = (Returns (Inl (App (NewValidation ''total must be greater than 0'' NoDetails))), NewMocks,
      [GetUser_call 1]) \<and>
   Is (App (NewValidation ''total must be greater than 0'' NoDetails)) CodeValidation"
proof -
  let ?input = "\<lparr>Input_UserID = 1, Input_Total = Finite (-10)\<rparr>"
  have bad: "f64_le (Input_Total ?input) (Finite 0) \<or> f64_gt (Input_Total ?input) (Finite 1000000)"
    by simp
  have v: "Order_Validate \<lparr>ID = 0, UserID = Input_UserID ?input, Total = Input_Total ?input,
              Status = OrderStatusPending, CreatedAt = 5, UpdatedAt = 6\<rparr>
           = App (NewValidation ''total must be greater than 0'' NoDetails)"
    by (simp add: Order_Validate_def ErrInvalidTotal_def)
  have c: "userClient MockUseCase = Some Mock_GetUser" by (simp add: MockUseCase_def)
  have g: "Mock_GetUser (Input_UserID ?input) NewMocks
           = ((Some \<lparr>Info_ID = 1, Info_Name = ''John Doe'', Info_Email = ''john@example.com''\<rparr>,
               nil_err), NewMocks)"
    by (simp add: Mock_GetUser_def Mock_users_def)
  from CreateOrder_invalid_total
         [OF bad, of "\<lparr>repo = MockOrderRepository, publisher = Some (Publisher Mock_PublishOrderCreated),
                userClient = None\<rparr>" 5 6 NewMocks]
       CreateOrder_invalid_total [OF bad, of MockUseCase 5 6 NewMocks] c g v
  show ?thesis by simp
qed

text \<open>
  C8. Once the repository's \<^verbatim>\<open>Create\<close> has succeeded, \<^verbatim>\<open>CreateOrder\<close> should return the
  persisted order as success whatever becomes of the event. It does when the publisher fails
  with an error: the failure is logged and the order returned. It does not in the mode the
  service itself sets up when the broker is unreachable: the publisher is then a nil pointer
  inside a non-nil interface, the guard before the publish step lets it through, and the call
  panics after the order has been stored, so no order is returned. Both runs, for user 1 and
  a total of 99.99:
\<close>

theorem CreateOrder_nil_publisher_panics:
  "CreateOrder
     \<lparr>repo = MockOrderRepository,
      publisher = Some (Publisher (Failing_PublishOrderCreated (Foreign ''broker unreachable'' nil_err))),
      userClient = Some Mock_GetUser\<rparr>
     5 6 \<lparr>Input_UserID = 1, Input_Total = Finite 99.99\<rparr> NewMocks
   = (Returns (Inr \<lparr>Created_Order =
             \<lparr>ID = 1, UserID = 1, Total = Finite 99.99, Status = OrderStatusPending,
              CreatedAt = 5, UpdatedAt = 6\<rparr>\<rparr>),
      \<lparr>orders = [1 \<mapsto> \<lparr>ID = 1, UserID = 1, Total = Finite 99.99, Status = OrderStatusPending,
                          CreatedAt = 5, UpdatedAt = 6\<rparr>],
       nextID = 2, events = []\<rparr>,
      [GetUser_call 1,
       Create_call \<lparr>ID = 0, UserID = 1, Total = Finite 99.99, Status = OrderStatusPending,
                    CreatedAt = 5, UpdatedAt = 6\<rparr>,
       PublishOrderCreated_call
                   \<lparr>ID = 1, UserID = 1, Total = Finite 99.99, Status = OrderStatusPending,
                    CreatedAt = 5, UpdatedAt = 6\<rparr>,
       Log_Error ''failed to publish order created event'',
       Log_Info ''order created'']) \<and>
   CreateOrder
     \<lparr>repo = MockOrderRepository, publisher = Some NilRabbitMQPublisher,
      userClient = Some Mock_GetUser\<rparr>
     5 6 \<lparr>Input_UserID = 1, Input_Total = Finite 99.99\<rparr> NewMocks
   = (Panics ''runtime error: invalid memory address or nil pointer dereference'',
      \<lparr>orders = [1 \<mapsto> \<lparr>ID = 1, UserID = 1, Total = Finite 99.99, Status = OrderStatusPending,
                          CreatedAt = 5, UpdatedAt = 6\<rparr>],
       nextID = 2, events = []\<rparr>,
      [GetUser_call 1,
       Create_call \<lparr>ID = 0, UserID = 1, Total = Finite 99.99, Status = OrderStatusPending,
                    CreatedAt = 5, UpdatedAt = 6\<rparr>,
       PublishOrderCreated_call
                   \<lparr>ID = 1, UserID = 1, Total = Finite 99.99, Status = OrderStatusPending,
                    CreatedAt = 5, UpdatedAt = 6\<rparr>])"
  by (simp add: CreateOrder_def CreateOrder_construct_def Mock_GetUser_def Mock_users_def
      NewOrder_def Order_Validate_def MockOrderRepository_def Mock_Create_def NewMocks_def
      Let_def Failing_PublishOrderCreated_def nil_dereference_def)

end
